theory Spec2Isabelle
  imports Main "HOL-Library.Word"
begin

unbundle bit_operations_syntax

section \<open>The digit gate of \<^verbatim>\<open>src/main.c\<close>\<close>

text \<open>
  The program checks seven key presses, one handler per digit. The page calls
  \<^verbatim>\<open>window.console.log(digit)\<close>; the C code keeps replacing that property with a
  JavaScript wrapper around the handler of the next digit. Four of the handlers decide
  by running a small WebAssembly module that is stored as a byte array in the source.

  The embedding has three layers: the bytes and the part of the WebAssembly binary
  format they use, the C globals together with the two \<^verbatim>\<open>console\<close> properties and the
  host values the code reads (clock, debugger pause, text of \<^verbatim>\<open>ASM_CONSTS[0]\<close>), and
  the handlers themselves. The exported functions \<^verbatim>\<open>__syscall80\<close>, \<^verbatim>\<open>__syscall72\<close>, ...
  appear without the leading underscores; the three local arrays that the source calls
  \<^verbatim>\<open>wasm\<close> carry the number of their handler.
\<close>

type_synonym byte = "8 word"
type_synonym i32 = "32 word"

subsection \<open>Exceptions of the host\<close>

text \<open>
  \<^verbatim>\<open>new WebAssembly.Module\<close> throws a CompileError on bytes that are not a module,
  calling a missing export throws a TypeError, the \<^verbatim>\<open>unreachable\<close> opcode throws a
  RuntimeError. An indirect call through a null table index aborts the C code.
\<close>

datatype exn = CompileError | TypeError | RuntimeError | NullFunctionCall

subsection \<open>The binary format, as far as the embedded modules use it\<close>

text \<open>Unsigned LEB128 (section sizes, vector lengths, indices).\<close>

fun leb_u :: "byte list \<Rightarrow> (nat \<times> byte list) option" where
  "leb_u [] = None"
| "leb_u (b # bs) =
     (if b < 128 then Some (unat b, bs)
      else (case leb_u bs of
              None \<Rightarrow> None
            | Some (n, rest) \<Rightarrow> Some (unat (b AND 127) + 128 * n, rest)))"

text \<open>Signed LEB128 (the immediate of \<^verbatim>\<open>i32.const\<close>): bit 6 of the last byte is the sign.\<close>

fun leb_s :: "byte list \<Rightarrow> (int \<times> byte list) option" where
  "leb_s [] = None"
| "leb_s (b # bs) =
     (if b < 128 then Some (if b AND 64 = 0 then uint b else uint b - 128, bs)
      else (case leb_s bs of
              None \<Rightarrow> None
            | Some (n, rest) \<Rightarrow> Some (uint (b AND 127) + 128 * n, rest)))"

text \<open>
  The five opcodes that occur in the embedded function bodies:
  \<^verbatim>\<open>0x00 unreachable\<close>, \<^verbatim>\<open>0x20 local.get\<close>, \<^verbatim>\<open>0x41 i32.const\<close>, \<^verbatim>\<open>0x46 i32.eq\<close>,
  \<^verbatim>\<open>0x73 i32.xor\<close>; \<^verbatim>\<open>0x0b\<close> ends the body.
\<close>

datatype instr = Unreachable | Local_get nat | I32_const i32 | I32_eq | I32_xor

function decode_expr :: "byte list \<Rightarrow> instr list option" where
  "decode_expr [] = None"
| "decode_expr (opc # bs) =
     (if opc = 0x0b then (if bs = [] then Some [] else None)
      else if opc = 0x00 then map_option (Cons Unreachable) (decode_expr bs)
      else if opc = 0x20 then
        (case leb_u bs of
           None \<Rightarrow> None
         | Some (i, rest) \<Rightarrow> map_option (Cons (Local_get i)) (decode_expr rest))
      else if opc = 0x41 then
        (case leb_s bs of
           None \<Rightarrow> None
         | Some (c, rest) \<Rightarrow> map_option (Cons (I32_const (word_of_int c))) (decode_expr rest))
      else if opc = 0x46 then map_option (Cons I32_eq) (decode_expr bs)
      else if opc = 0x73 then map_option (Cons I32_xor) (decode_expr bs)
      else None)"
  by pat_completeness auto
termination
proof -
  have u: "length rest < length bs" if "leb_u bs = Some (n, rest)" for bs n rest
    using that by (induction bs arbitrary: n rest) (auto split: if_splits option.splits)
  have s: "length rest < length bs" if "leb_s bs = Some (n, rest)" for bs n rest
    using that by (induction bs arbitrary: n rest) (auto split: if_splits option.splits)
  show ?thesis
    by (relation "measure length") (auto dest: u s)
qed

text \<open>A function body: the vector of local declarations (empty in every module here), then the code.\<close>

definition decode_body :: "byte list \<Rightarrow> instr list option" where
  "decode_body bs =
     (case leb_u bs of
        None \<Rightarrow> None
      | Some (nlocals, rest) \<Rightarrow> if nlocals = 0 then decode_expr rest else None)"

text \<open>The code section: a count, then each body prefixed by its size.\<close>

fun decode_bodies :: "nat \<Rightarrow> byte list \<Rightarrow> instr list list option" where
  "decode_bodies 0 bs = (if bs = [] then Some [] else None)"
| "decode_bodies (Suc k) bs =
     (case leb_u bs of
        None \<Rightarrow> None
      | Some (n, rest) \<Rightarrow>
          if length rest < n then None
          else (case decode_body (take n rest) of
                  None \<Rightarrow> None
                | Some body \<Rightarrow> map_option (Cons body) (decode_bodies k (drop n rest))))"

text \<open>The export section: a count, then name, kind (0 is a function) and index of each export.\<close>

fun decode_exports :: "nat \<Rightarrow> byte list \<Rightarrow> (byte list \<times> byte \<times> nat) list option" where
  "decode_exports 0 bs = (if bs = [] then Some [] else None)"
| "decode_exports (Suc k) bs =
     (case leb_u bs of
        None \<Rightarrow> None
      | Some (n, rest) \<Rightarrow>
          if length rest < n then None
          else (case drop n rest of
                  [] \<Rightarrow> None
                | kind # rest' \<Rightarrow>
                    (case leb_u rest' of
                       None \<Rightarrow> None
                     | Some (idx, rest'') \<Rightarrow>
                         map_option (Cons (take n rest, kind, idx)) (decode_exports k rest''))))"

text \<open>The sections after the header: an id byte, a size, that many bytes of contents.\<close>

function sections :: "byte list \<Rightarrow> (byte \<times> byte list) list option" where
  "sections [] = Some []"
| "sections (sid # bs) =
     (case leb_u bs of
        None \<Rightarrow> None
      | Some (n, rest) \<Rightarrow>
          if length rest < n then None
          else map_option (Cons (sid, take n rest)) (sections (drop n rest)))"
  by pat_completeness auto
termination
proof -
  have u: "length rest < length bs" if "leb_u bs = Some (n, rest)" for bs n rest
    using that by (induction bs arbitrary: n rest) (auto split: if_splits option.splits)
  show ?thesis
    by (relation "measure length") (auto dest: u)
qed

record wasm_module =
  exports :: "(byte list \<times> byte \<times> nat) list"
  funcs :: "instr list list"

definition section_vec :: "(nat \<Rightarrow> byte list \<Rightarrow> 'a list option) \<Rightarrow> byte list option \<Rightarrow> 'a list option" where
  "section_vec dec body =
     (case body of
        None \<Rightarrow> Some []
      | Some bs \<Rightarrow> (case leb_u bs of None \<Rightarrow> None | Some (count, rest) \<Rightarrow> dec count rest))"

text \<open>
  \<^verbatim>\<open>new WebAssembly.Module(bytes)\<close>: the magic \<^verbatim>\<open>\0asm\<close>, version 1, then the sections,
  of which the export section (id 7) and the code section (id 10) are read.
\<close>

definition compile_module :: "byte list \<Rightarrow> exn + wasm_module" where
  "compile_module bs =
     (if take 8 bs \<noteq> [0x00, 0x61, 0x73, 0x6d, 0x01, 0x00, 0x00, 0x00] then Inl CompileError
      else (case sections (drop 8 bs) of
              None \<Rightarrow> Inl CompileError
            | Some secs \<Rightarrow>
                (case (section_vec decode_exports (map_of secs 7),
                       section_vec decode_bodies (map_of secs 10)) of
                   (Some ex, Some fs) \<Rightarrow> Inr \<lparr>exports = ex, funcs = fs\<rparr>
                 | _ \<Rightarrow> Inl CompileError)))"

text \<open>
  Running a body on the argument (local 0) with an operand stack. \<^verbatim>\<open>unreachable\<close>
  traps; a body that the validator of the host would reject (stack underflow, unknown
  local) counts as not compiling.
\<close>

fun exec :: "instr list \<Rightarrow> i32 list \<Rightarrow> i32 list \<Rightarrow> exn + i32 list" where
  "exec [] locals stack = Inr stack"
| "exec (Unreachable # is) locals stack = Inl RuntimeError"
| "exec (Local_get i # is) locals stack =
     (if i < length locals then exec is locals (locals ! i # stack) else Inl CompileError)"
| "exec (I32_const c # is) locals stack = exec is locals (c # stack)"
| "exec (I32_eq # is) locals (b # a # stack) = exec is locals ((if a = b then 1 else 0) # stack)"
| "exec (I32_xor # is) locals (b # a # stack) = exec is locals ((a XOR b) # stack)"
| "exec (I32_eq # is) locals stack = Inl CompileError"
| "exec (I32_xor # is) locals stack = Inl CompileError"

text \<open>An export name as the bytes of its ASCII text.\<close>

definition name_bytes :: "string \<Rightarrow> byte list" where
  "name_bytes s = map (\<lambda>c. of_char c) s"

text \<open>\<^verbatim>\<open>instance.exports.name(arg)\<close>: a missing or non-function export is not callable.\<close>

definition call_export :: "wasm_module \<Rightarrow> string \<Rightarrow> i32 \<Rightarrow> exn + i32" where
  "call_export m name arg =
     (case map_of (exports m) (name_bytes name) of
        None \<Rightarrow> Inl TypeError
      | Some (kind, idx) \<Rightarrow>
          if kind \<noteq> 0 \<or> length (funcs m) \<le> idx then Inl TypeError
          else (case exec (funcs m ! idx) [arg] [] of
                  Inl e \<Rightarrow> Inl e
                | Inr [r] \<Rightarrow> Inr r
                | Inr _ \<Rightarrow> Inl CompileError))"

text \<open>Compile, instantiate and call one export, as the validators of digits 2 to 4 do.\<close>

definition run_module :: "byte list \<Rightarrow> string \<Rightarrow> i32 \<Rightarrow> exn + i32" where
  "run_module bs name arg =
     (case compile_module bs of Inl e \<Rightarrow> Inl e | Inr m \<Rightarrow> call_export m name arg)"

subsection \<open>The embedded byte arrays\<close>

text \<open>\<^verbatim>\<open>__syscall72\<close>: the module held in a JavaScript array, export \<^verbatim>\<open>oh_no\<close>.\<close>

definition wasm72 :: "byte list" where
  "wasm72 =
    [0,97,115,109,1,0,0,0,1,134,128,128,128,0,1,96,1,127,1,127,3,130,
     128,128,128,0,1,0,4,132,128,128,128,0,1,112,0,0,5,131,128,128,
     128,0,1,0,1,6,129,128,128,128,0,0,7,146,128,128,128,0,2,6,109,
     101,109,111,114,121,2,0,5,111,104,95,110,111,0,0,10,141,128,128,
     128,0,1,135,128,128,128,0,0,32,0,65,9,70,11]"

text \<open>\<^verbatim>\<open>__syscall42\<close>: the module held in a C array, export \<^verbatim>\<open>_oh_no\<close>.\<close>

definition wasm42 :: "byte list" where
  "wasm42 =
    [0x00, 0x61, 0x73, 0x6d, 0x01, 0x00, 0x00, 0x00, 0x01, 0x06, 0x01, 0x60,
     0x01, 0x7f, 0x01, 0x7f, 0x03, 0x02, 0x01, 0x00, 0x07, 0x0a, 0x01, 0x06,
     0x5f, 0x6f, 0x68, 0x5f, 0x6e, 0x6f, 0x00, 0x00, 0x0a, 0x09, 0x01, 0x07,
     0x00, 0x20, 0x00, 0x41, 0x04, 0x46, 0x0b]"

text \<open>\<^verbatim>\<open>__syscall18\<close>: the C array that the handler first xors with \<^verbatim>\<open>0xaa\<close>.\<close>

definition wasm18 :: "byte list" where
  "wasm18 =
    [170,203,217,199,171,170,170,170,171,44,42,42,42,170,171,202,
     171,213,171,213,169,40,42,42,42,170,171,170,174,46,42,42,
     42,170,171,218,170,170,175,41,42,42,42,170,171,170,171,172,
     43,42,42,42,170,170,173,56,42,42,42,170,168,172,199,207,
     199,197,216,211,168,170,175,197,194,245,196,197,170,170,160,39,
     42,42,42,170,171,45,42,42,42,170,170,138,170,235,173,236,
     161]"

text \<open>\<^verbatim>\<open>the_end\<close>: the decoding module (export \<^verbatim>\<open>lolwat\<close>) and the obscured validator.\<close>

definition xor_decode :: "byte list" where
  "xor_decode =
    [0,97,115,109,1,0,0,0,1,134,128,128,128,0,1,96,
     1,127,1,127,3,130,128,128,128,0,1,0,4,132,128,
     128,128,0,1,112,0,0,5,131,128,128,128,0,1,0,1,
     6,129,128,128,128,0,0,7,147,128,128,128,0,2,6,
     109,101,109,111,114,121,2,0,6,108,111,108,119,
     97,116,0,0,10,142,128,128,128,0,1,136,128,128,
     128,0,0,32,0,65,187,1,115,11]"

definition wasmCode :: "byte list" where
  "wasmCode =
    [187,218,200,214,186,187,187,187,186,61,59,59,59,187,186,219,
     186,196,186,196,184,57,59,59,59,187,186,187,191,63,59,59,
     59,187,186,203,187,187,190,56,59,59,59,187,186,187,186,189,
     58,59,59,59,187,187,188,47,59,59,59,187,185,189,214,222,
     214,212,201,194,185,187,188,204,222,207,200,218,213,223,187,187,
     177,54,59,59,59,187,186,60,59,59,59,187,187,155,187,250,
     191,253,176]"

text \<open>\<^verbatim>\<open>the_end\<close>, failure branch: the module whose only function is \<^verbatim>\<open>unreachable\<close>.\<close>

definition lol_wasm :: "byte list" where
  "lol_wasm =
    [0x00, 0x61, 0x73, 0x6d, 0x01, 0x00, 0x00, 0x00, 0x01, 0x06, 0x01, 0x60,
     0x01, 0x7f, 0x01, 0x7f, 0x03, 0x02, 0x01, 0x00, 0x07, 0x0e, 0x01, 0x0a,
     0x5f, 0x73, 0x74, 0x61, 0x67, 0x65, 0x5f, 0x6f, 0x6e, 0x65, 0x00, 0x00,
     0x0a, 0x05, 0x01, 0x03, 0x00, 0x00, 0x0b]"

subsection \<open>The xor codec\<close>

text \<open>
  The statement \<^verbatim>\<open>wasm[i] = (wasm[i] ^ 0xaa) & 0xff\<close> on a \<^verbatim>\<open>char\<close>: the element is
  promoted to \<^verbatim>\<open>int\<close> (sign extended), xored with the \<^verbatim>\<open>int\<close> key, masked, and
  truncated back to a \<^verbatim>\<open>char\<close>.
\<close>

definition xor_char :: "i32 \<Rightarrow> byte \<Rightarrow> byte" where
  "xor_char key c = ucast (((scast c :: i32) XOR key) AND 0xff)"

text \<open>The loop \<^verbatim>\<open>for (int i = 0; i < n; i++)\<close> over the array, updated in place.\<close>

function decode_loop :: "i32 \<Rightarrow> nat \<Rightarrow> nat \<Rightarrow> byte list \<Rightarrow> byte list" where
  "decode_loop key n i wasm =
     (if i < n then decode_loop key n (i + 1) (wasm[i := xor_char key (wasm ! i)]) else wasm)"
  by pat_completeness auto
termination
  by (relation "measure (\<lambda>(key, n, i, wasm). n - i)") auto

declare decode_loop.simps [simp del]

text \<open>The codec on a whole array with a one-byte key (the source has 97 bytes and key \<^verbatim>\<open>0xaa\<close>).\<close>

definition decode :: "byte list \<Rightarrow> byte \<Rightarrow> byte list" where
  "decode bytes key = decode_loop (ucast key) (length bytes) 0 bytes"

subsection \<open>The state: C globals, the two console properties, the host\<close>

text \<open>The seven exported handlers, in the order in which the chain visits them.\<close>

datatype handler = Syscall80 | Syscall72 | Syscall42 | Syscall18 | The_end | Syscall12 | Syscall188

text \<open>
  What \<^verbatim>\<open>window.console.log\<close> or \<^verbatim>\<open>window.console.assert\<close> can hold: a function of the
  host, or the wrapper \<^verbatim>\<open>function(param) { Module.ccall(name, 'void', ['number'], [param]) }\<close>
  that the C code installs.
\<close>

datatype jsfun = Host_log | Host_assert | Ccall handler

text \<open>The calls into the host that the code makes, in the order in which they happen.\<close>

datatype event =
    Debugger
  | Read_source
  | Wasm_call string
  | Caught exn
  | Run_script string
  | Alert string
  | Exit

record world =
  first_press :: i32
  g_func_ptr :: i32
  log_stored :: i32
  console_log :: jsfun
  console_assert :: jsfun
  clock :: int
  pause :: nat
  asm_const0 :: string
  lol_wasm_addr :: i32
  trace :: "event list"

text \<open>
  \<^const>\<open>first_press\<close>, \<^const>\<open>g_func_ptr\<close> and \<^const>\<open>log_stored\<close> are the three static
  variables. \<^const>\<open>clock\<close> is the wall clock in seconds, \<^const>\<open>pause\<close> the number of seconds
  for which a \<^verbatim>\<open>debugger\<close> statement stops the program (0 while no developer console is
  open), \<^const>\<open>asm_const0\<close> the text that \<^verbatim>\<open>ASM_CONSTS[0].toString()\<close> yields, and
  \<^const>\<open>lol_wasm_addr\<close> the address of the local array that \<^verbatim>\<open>the_end\<close> hands to
  JavaScript.
\<close>

definition emit :: "event \<Rightarrow> world \<Rightarrow> world" where
  "emit e w = w\<lparr>trace := trace w @ [e]\<rparr>"

text \<open>\<^verbatim>\<open>int t = time(NULL)\<close>\<close>

definition time_NULL :: "world \<Rightarrow> i32" where
  "time_NULL w = word_of_int (clock w)"

text \<open>\<^verbatim>\<open>delete window['console']['log']; window['console']['log'] = window['console']['assert'];\<close>\<close>

definition restore_log :: "world \<Rightarrow> world" where
  "restore_log w = w\<lparr>console_log := console_assert w\<rparr>"

text \<open>\<^verbatim>\<open>window['console']['log'] = function(param) { Module.ccall(h, ...) }\<close>\<close>

definition install :: "handler \<Rightarrow> world \<Rightarrow> world" where
  "install h w = w\<lparr>console_log := Ccall h\<rparr>"

text \<open>
  The \<^verbatim>\<open>debugger\<close> statement: the clock runs on while the program is stopped. Within a
  handler the clock moves in no other way, so the two readings of \<^verbatim>\<open>debugger_check\<close>
  differ only by the pause.
\<close>

definition debugger_stmt :: "world \<Rightarrow> world" where
  "debugger_stmt w = emit Debugger (w\<lparr>clock := clock w + int (pause w)\<rparr>)"

definition debugger_check :: "world \<Rightarrow> i32 \<times> world" where
  "debugger_check w =
     (let t_before = time_NULL w;
          w1 = debugger_stmt w;
          t_after = time_NULL w1
      in if t_after - t_before \<noteq> 0
         then (1, if log_stored w1 = 1 then restore_log w1 else w1)
         else (0, w1))"

definition expected :: string where
  "expected = ''function(){debugger}''"

definition hello :: "world \<Rightarrow> world" where
  "hello w =
     (case debugger_check w of
        (r, w1) \<Rightarrow>
          if r = 1 then w1
          else
            (let w2 = emit Read_source w1;
                 result = (if asm_const0 w2 = expected then 1 else 0 :: i32)
             in if result \<noteq> 1
                then (if log_stored w2 = 1 then restore_log w2 else w2)
                else install Syscall80
                       (w2\<lparr>log_stored := 1, console_assert := console_log w2\<rparr>)))"

definition call_me_indirectly :: "i32 \<Rightarrow> world \<Rightarrow> world" where
  "call_me_indirectly p_value w = (if p_value = 1 then install Syscall72 w else hello w)"

text \<open>
  The function table through which \<^verbatim>\<open>g_func_ptr(p_value)\<close> is called. The table is made
  by the compiler; the source's \<^verbatim>\<open>main\<close> says of it: "call_me_indirectly should be at
  one given the current code layout". Index 0 is the null pointer, and no other index
  is ever stored in \<^const>\<open>g_func_ptr\<close>.
\<close>

definition func_table :: "i32 \<Rightarrow> (i32 \<Rightarrow> world \<Rightarrow> world) option" where
  "func_table i = (if i = 1 then Some call_me_indirectly else None)"

definition syscall80 :: "i32 \<Rightarrow> world \<Rightarrow> exn + world" where
  "syscall80 p_value w =
     (case debugger_check w of
        (r, w1) \<Rightarrow>
          if r = 1 then Inr w1
          else
            (let w2 = w1\<lparr>first_press := time_NULL w1\<rparr>
             in case func_table (g_func_ptr w2) of
                  None \<Rightarrow> Inl NullFunctionCall
                | Some f \<Rightarrow> Inr (f p_value w2)))"

text \<open>
  The handlers of digits 2 to 4 share their shape: run the module's export on the key,
  then install the next wrapper or call \<^const>\<open>hello\<close>. An exception of the host is not
  caught there. Copying the C array into a \<^verbatim>\<open>Uint8Array\<close> keeps the bytes.
\<close>

definition syscall72 :: "i32 \<Rightarrow> world \<Rightarrow> exn + world" where
  "syscall72 p_value w =
     (case run_module wasm72 ''oh_no'' p_value of
        Inl e \<Rightarrow> Inl e
      | Inr result \<Rightarrow>
          (let w1 = emit (Wasm_call ''oh_no'') w
           in Inr (if result = 1 then install Syscall42 w1 else hello w1)))"

definition syscall42 :: "i32 \<Rightarrow> world \<Rightarrow> exn + world" where
  "syscall42 p_value w =
     (case run_module wasm42 ''_oh_no'' p_value of
        Inl e \<Rightarrow> Inl e
      | Inr result \<Rightarrow>
          (let w1 = emit (Wasm_call ''_oh_no'') w
           in Inr (if result = 1 then install Syscall18 w1 else hello w1)))"

definition syscall18 :: "i32 \<Rightarrow> world \<Rightarrow> exn + world" where
  "syscall18 p_value w =
     (let wasm = decode_loop 0xaa 97 0 wasm18
      in case run_module wasm ''oh_no'' p_value of
           Inl e \<Rightarrow> Inl e
         | Inr result \<Rightarrow>
             (let w1 = emit (Wasm_call ''oh_no'') w
              in Inr (if result = 1 then install The_end w1 else hello w1)))"

text \<open>
  The JavaScript loop of \<^verbatim>\<open>the_end\<close>:
  \<^verbatim>\<open>wasmCode[i] = xor_instance.exports.lolwat(wasmCode[i])\<close> on a \<^verbatim>\<open>Uint8Array\<close>,
  whose elements keep the low eight bits of what is stored.
\<close>

fun oracle_decode :: "(i32 \<Rightarrow> exn + i32) \<Rightarrow> byte list \<Rightarrow> exn + byte list" where
  "oracle_decode f [] = Inr []"
| "oracle_decode f (b # bs) =
     (case f (ucast b) of
        Inl e \<Rightarrow> Inl e
      | Inr r \<Rightarrow>
          (case oracle_decode f bs of
             Inl e \<Rightarrow> Inl e
           | Inr rs \<Rightarrow> Inr (ucast r # rs)))"

definition wetsand :: "i32 \<Rightarrow> exn + i32" where
  "wetsand p_value =
     (case compile_module xor_decode of
        Inl e \<Rightarrow> Inl e
      | Inr xor_instance \<Rightarrow>
          (case oracle_decode (call_export xor_instance ''lolwat'') wasmCode of
             Inl e \<Rightarrow> Inl e
           | Inr code \<Rightarrow> run_module code ''wetsand'' p_value))"

text \<open>
  The \<^verbatim>\<open>else\<close> branch of \<^verbatim>\<open>the_end\<close>: inside \<^verbatim>\<open>try\<close>, console.log is restored from
  console.assert, then the \<^verbatim>\<open>unreachable\<close> module is run on the array's address; the
  \<^verbatim>\<open>catch\<close> drops whatever was thrown. The alert after the call is the source's dead code.
\<close>

definition lol_branch :: "world \<Rightarrow> world" where
  "lol_branch w =
     (let w1 = emit (Wasm_call ''_stage_one'') (restore_log w)
      in case run_module lol_wasm ''_stage_one'' (lol_wasm_addr w) of
           Inl e \<Rightarrow> emit (Caught e) w1
         | Inr r \<Rightarrow>
             emit (Alert ''Whoa! You got it! Email the 7 digit code to solvedthechallenge@tenable.com'') w1)"

definition the_end :: "i32 \<Rightarrow> world \<Rightarrow> exn + world" where
  "the_end p_value w =
     (let are_you_a_bot = time_NULL w
      in case (if 1 <s are_you_a_bot - first_press w
               then (case wetsand p_value of
                       Inl e \<Rightarrow> Inl e
                     | Inr r \<Rightarrow> Inr (r, emit (Wasm_call ''wetsand'') w))
               else Inr (0, w)) of
           Inl e \<Rightarrow> Inl e
         | Inr (result, w1) \<Rightarrow>
             Inr (if result = 1 then install Syscall12 w1 else lol_branch w1))"

text \<open>\<^verbatim>\<open>p_value >> 3\<close> on a signed \<^verbatim>\<open>int\<close> is the arithmetic shift.\<close>

definition syscall12 :: "i32 \<Rightarrow> world \<Rightarrow> exn + world" where
  "syscall12 p_value w =
     Inr (if p_value AND 0x03 = 0 \<and> p_value AND 0x04 = 0 \<and> signed_drop_bit 3 p_value = 1
          then install Syscall188 w
          else hello w)"

definition final_script :: string where
  "final_script = ''eval(atob('YWxlcnQoJ0dvb2Qgam9iISBZb3UgZGlkIGl0ISBZb3VyIHByaXplIGlzIHRoZSBzYXRpc2ZhY3Rpb24gb2YgYSBqb2Igd2VsbCBkb25lLiBDb25ncmF0cyEnKTs='))''"

definition syscall188 :: "i32 \<Rightarrow> world \<Rightarrow> exn + world" where
  "syscall188 p_value w =
     Inr (hello (if p_value = 2 then emit (Run_script final_script) w else w))"

text \<open>
  \<^verbatim>\<open>main\<close>: the launch check on the argument vector. The failing branch restores
  console.log and calls \<^verbatim>\<open>exit(0)\<close>; the passing branch stores table index 1.
\<close>

definition main :: "string list \<Rightarrow> world \<Rightarrow> world" where
  "main p_argv w =
     (case p_argv of
        [arg0] \<Rightarrow>
          if arg0 = ''./this.program'' then w\<lparr>g_func_ptr := 1\<rparr>
          else emit Exit (restore_log w)
      | _ \<Rightarrow> emit Exit (restore_log w))"

subsection \<open>Sessions\<close>

text \<open>
  The state of a freshly loaded page: the static initialisers of the source, the
  host's own two console functions, a clock reading, no developer console, the
  untouched text of \<^verbatim>\<open>ASM_CONSTS[0]\<close>.
\<close>

definition initial :: "int \<Rightarrow> world" where
  "initial t =
     \<lparr>first_press = 0, g_func_ptr = 0, log_stored = 0,
      console_log = Host_log, console_assert = Host_assert,
      clock = t, pause = 0, asm_const0 = expected, lol_wasm_addr = 0, trace = []\<rparr>"

text \<open>
  The doc comment of \<^verbatim>\<open>hello\<close>: "hello is the first function to execute. It fires
  before main()". What makes it fire is not in the C file; the order is taken from that
  comment.
\<close>

definition startup :: "string list \<Rightarrow> int \<Rightarrow> world" where
  "startup p_argv t = main p_argv (hello (initial t))"

definition boot :: world where
  "boot = startup [''./this.program''] 1000"

text \<open>\<^verbatim>\<open>Module.ccall(name, 'void', ['number'], [param])\<close>\<close>

fun ccall :: "handler \<Rightarrow> i32 \<Rightarrow> world \<Rightarrow> exn + world" where
  "ccall Syscall80 v w = syscall80 v w"
| "ccall Syscall72 v w = syscall72 v w"
| "ccall Syscall42 v w = syscall42 v w"
| "ccall Syscall18 v w = syscall18 v w"
| "ccall The_end v w = the_end v w"
| "ccall Syscall12 v w = syscall12 v w"
| "ccall Syscall188 v w = syscall188 v w"

text \<open>
  A key press: the page calls \<^verbatim>\<open>window.console.log(v)\<close>. The host's own functions do
  not reach the C code.
\<close>

definition press :: "i32 \<Rightarrow> world \<Rightarrow> exn + world" where
  "press v w = (case console_log w of Ccall h \<Rightarrow> ccall h v w | _ \<Rightarrow> Inr w)"

text \<open>
  What the person at the page can do between two handler calls: press a key, let time
  pass, open the developer console (so that \<^verbatim>\<open>debugger\<close> stops for some seconds) or
  close it, and edit the routine behind \<^verbatim>\<open>ASM_CONSTS[0]\<close>.
\<close>

datatype action = Press i32 | Wait nat | Inspector nat | Edit_source string

fun act :: "action \<Rightarrow> world \<Rightarrow> exn + world" where
  "act (Press v) w = press v w"
| "act (Wait d) w = Inr (w\<lparr>clock := clock w + int d\<rparr>)"
| "act (Inspector p) w = Inr (w\<lparr>pause := p\<rparr>)"
| "act (Edit_source s) w = Inr (w\<lparr>asm_const0 := s\<rparr>)"

text \<open>A session stops at the first exception that leaves a handler.\<close>

fun run :: "action list \<Rightarrow> world \<Rightarrow> exn + world" where
  "run [] w = Inr w"
| "run (a # as) w = (case act a w of Inl e \<Rightarrow> Inl e | Inr w' \<Rightarrow> run as w')"

text \<open>Projections of a session's outcome.\<close>

definition hook_after :: "exn + world \<Rightarrow> jsfun option" where
  "hook_after r = (case r of Inl e \<Rightarrow> None | Inr w \<Rightarrow> Some (console_log w))"

definition trace_after :: "exn + world \<Rightarrow> event list option" where
  "trace_after r = (case r of Inl e \<Rightarrow> None | Inr w \<Rightarrow> Some (trace w))"

definition first_press_after :: "exn + world \<Rightarrow> i32 option" where
  "first_press_after r = (case r of Inl e \<Rightarrow> None | Inr w \<Rightarrow> Some (first_press w))"

text \<open>The state a session ends in; the starting state if an exception ended it.\<close>

definition after :: "action list \<Rightarrow> world \<Rightarrow> world" where
  "after as w = (case run as w of Inl e \<Rightarrow> w | Inr w' \<Rightarrow> w')"

text \<open>The final message is shown by \<^verbatim>\<open>emscripten_run_script\<close> or by an \<^verbatim>\<open>alert\<close>.\<close>

fun is_notify :: "event \<Rightarrow> bool" where
  "is_notify (Run_script s) = True"
| "is_notify (Alert s) = True"
| "is_notify e = False"

definition notify_count :: "world \<Rightarrow> nat" where
  "notify_count w = length (filter is_notify (trace w))"

text \<open>The answer stated at the top of the source, 1947482, digit by digit.\<close>

fun expected_digit :: "handler \<Rightarrow> i32" where
  "expected_digit Syscall80 = 1"
| "expected_digit Syscall72 = 9"
| "expected_digit Syscall42 = 4"
| "expected_digit Syscall18 = 7"
| "expected_digit The_end = 4"
| "expected_digit Syscall12 = 8"
| "expected_digit Syscall188 = 2"

text \<open>The guard reports clean: the probe does not stall and the text is the expected one.\<close>

definition clean :: "world \<Rightarrow> bool" where
  "clean w \<longleftrightarrow> pause w = 0 \<and> asm_const0 w = expected"

section \<open>The codec and the embedded modules\<close>

lemma mask_255: "(0xff :: i32) = mask 8"
  by (simp add: mask_eq_exp_minus_1)

lemma xor_char_eq: "xor_char (ucast k) c = c XOR k"
  unfolding xor_char_def mask_255
  by (rule bit_word_eqI) (auto simp: bit_simps)

lemma decode_loop_eq:
  "i \<le> length bs \<Longrightarrow> n = length bs \<Longrightarrow>
   decode_loop key n i bs = take i bs @ map (xor_char key) (drop i bs)"
proof (induction key n i bs rule: decode_loop.induct)
  case (1 key n i wasm)
  show ?case
  proof (cases "i < n")
    case True
    have "decode_loop key n i wasm = decode_loop key n (i + 1) (wasm[i := xor_char key (wasm ! i)])"
      using True by (subst decode_loop.simps) simp
    also have "\<dots> = take (i + 1) (wasm[i := xor_char key (wasm ! i)])
                    @ map (xor_char key) (drop (i + 1) (wasm[i := xor_char key (wasm ! i)]))"
      using True 1 by simp
    also have "\<dots> = take i wasm @ map (xor_char key) (drop i wasm)"
      using True 1(3) by (simp add: take_Suc_conv_app_nth flip: Cons_nth_drop_Suc)
    finally show ?thesis .
  next
    case False
    with 1 show ?thesis by (subst decode_loop.simps) simp
  qed
qed

lemma decode_eq_map: "decode bytes key = map (\<lambda>c. c XOR key) bytes"
  by (simp add: decode_def decode_loop_eq xor_char_eq)

text \<open>
  C9. The codec undoes itself: for every byte sequence and every one-byte key, decoding
  twice with the same key gives the bytes back.
\<close>

theorem decode_involutive: "decode (decode bytes key) key = bytes"
  by (simp add: decode_eq_map o_def xor.assoc)

text \<open>Each embedded array is a module of the fragment; its single function is read off.\<close>

lemma name_bytes_simps:
  "name_bytes ''memory'' = [109, 101, 109, 111, 114, 121]"
  "name_bytes ''oh_no'' = [111, 104, 95, 110, 111]"
  "name_bytes ''_oh_no'' = [95, 111, 104, 95, 110, 111]"
  "name_bytes ''lolwat'' = [108, 111, 108, 119, 97, 116]"
  "name_bytes ''wetsand'' = [119, 101, 116, 115, 97, 110, 100]"
  "name_bytes ''_stage_one'' = [95, 115, 116, 97, 103, 101, 95, 111, 110, 101]"
  by (simp_all add: name_bytes_def)

lemma compile_wasm72:
  "compile_module wasm72 =
     Inr \<lparr>exports = [(name_bytes ''memory'', 2, 0), (name_bytes ''oh_no'', 0, 0)],
          funcs = [[Local_get 0, I32_const 9, I32_eq]]\<rparr>"
  by code_simp

lemma compile_wasm42:
  "compile_module wasm42 =
     Inr \<lparr>exports = [(name_bytes ''_oh_no'', 0, 0)],
          funcs = [[Local_get 0, I32_const 4, I32_eq]]\<rparr>"
  by code_simp

lemma compile_wasm18:
  "compile_module (decode_loop 0xaa 97 0 wasm18) =
     Inr \<lparr>exports = [(name_bytes ''memory'', 2, 0), (name_bytes ''oh_no'', 0, 0)],
          funcs = [[Local_get 0, I32_const 7, I32_eq]]\<rparr>"
  by code_simp

lemma compile_xor_decode:
  "compile_module xor_decode =
     Inr \<lparr>exports = [(name_bytes ''memory'', 2, 0), (name_bytes ''lolwat'', 0, 0)],
          funcs = [[Local_get 0, I32_const 187, I32_xor]]\<rparr>"
  by code_simp

lemma compile_lol_wasm:
  "compile_module lol_wasm =
     Inr \<lparr>exports = [(name_bytes ''_stage_one'', 0, 0)], funcs = [[Unreachable]]\<rparr>"
  by code_simp

lemma compile_wasmCode:
  "compile_module (map (\<lambda>b. b XOR 0xbb) wasmCode) =
     Inr \<lparr>exports = [(name_bytes ''memory'', 2, 0), (name_bytes ''wetsand'', 0, 0)],
          funcs = [[Local_get 0, I32_const 4, I32_eq]]\<rparr>"
  by code_simp

lemma run_wasm72: "run_module wasm72 ''oh_no'' v = Inr (if v = 9 then 1 else 0)"
  by (simp add: run_module_def compile_wasm72 call_export_def name_bytes_simps)

lemma run_wasm42: "run_module wasm42 ''_oh_no'' v = Inr (if v = 4 then 1 else 0)"
  by (simp add: run_module_def compile_wasm42 call_export_def name_bytes_simps)

lemma run_wasm18:
  "run_module (decode_loop 0xaa 97 0 wasm18) ''oh_no'' v = Inr (if v = 7 then 1 else 0)"
  by (simp add: run_module_def compile_wasm18 call_export_def name_bytes_simps)

lemma run_lol_wasm: "run_module lol_wasm ''_stage_one'' a = Inl RuntimeError"
  by (simp add: run_module_def compile_lol_wasm call_export_def name_bytes_simps)

lemma lolwat_eq:
  "call_export \<lparr>exports = [(name_bytes ''memory'', 2, 0), (name_bytes ''lolwat'', 0, 0)],
          funcs = [[Local_get 0, I32_const 187, I32_xor]]\<rparr> ''lolwat'' x = Inr (x XOR 0xbb)"
  by (simp add: call_export_def name_bytes_simps)

lemma oracle_decode_total:
  "(\<And>x. f x = Inr (g x)) \<Longrightarrow> oracle_decode f bs = Inr (map (\<lambda>b. ucast (g (ucast b))) bs)"
  by (induction bs) simp_all

lemma ucast_xor_bb: "(ucast ((ucast b :: i32) XOR 0xbb) :: byte) = b XOR 0xbb"
  by (rule bit_word_eqI) (auto simp: bit_simps)

lemma wetsand_eq: "wetsand v = Inr (if v = 4 then 1 else 0)"
  by (simp add: wetsand_def compile_xor_decode lolwat_eq
      oracle_decode_total [where g = "\<lambda>x. x XOR 0xbb"]
      ucast_xor_bb run_module_def compile_wasmCode call_export_def name_bytes_simps)

lemma bit_8_iff: "bit (8 :: i32) n \<longleftrightarrow> n = 3"
proof -
  have "(8 :: i32) = push_bit 3 1" by simp
  then show ?thesis by (simp only: bit_push_bit_iff) (auto simp: bit_simps)
qed

lemma isolate_8:
  fixes v :: i32
  assumes "v AND 0x03 = 0" "v AND 0x04 = 0" "signed_drop_bit 3 v = 1"
  shows "v = 8"
proof (rule bit_word_eqI)
  fix n assume n: "n < LENGTH(32)"
  have b0: "\<not> bit v 0" and b1: "\<not> bit v 1"
  proof -
    have "bit (v AND 3) 0 = False" "bit (v AND 3) 1 = False" using assms(1) by simp_all
    then show "\<not> bit v 0" "\<not> bit v 1" by (simp_all add: bit_and_iff bit_numeral_simps)
  qed
  have b2: "\<not> bit v 2"
  proof -
    have "bit (v AND 4) 2 = False" using assms(2) by simp
    moreover have "bit (4 :: i32) 2" by (simp add: bit_numeral_simps numeral_2_eq_2)
    ultimately show ?thesis by (simp add: bit_and_iff)
  qed
  have hi: "bit v (m + 3) \<longleftrightarrow> m = 0" if "m + 3 < 32" for m
  proof -
    have "bit (signed_drop_bit 3 v) m \<longleftrightarrow> bit (1 :: i32) m" using assms(3) by simp
    then show ?thesis using that by (simp add: bit_signed_drop_bit_iff bit_1_iff add.commute)
  qed
  show "bit v n \<longleftrightarrow> bit (8 :: i32) n"
  proof (cases "n < 3")
    case True
    then consider "n = 0" | "n = 1" | "n = 2" by linarith
    then show ?thesis using b0 b1 b2 by cases (simp_all add: bit_8_iff)
  next
    case False
    then obtain m where m: "n = m + 3" using le_Suc_ex[of 3 n] by (auto simp: add.commute)
    then show ?thesis using hi[of m] n bit_8_iff[of "m + 3"] by simp
  qed
qed

lemma syscall12_test:
  "(v AND 0x03 = 0 \<and> v AND 0x04 = 0 \<and> signed_drop_bit 3 v = 1) \<longleftrightarrow> v = (8 :: i32)"
  using isolate_8 [of v] by auto

section \<open>What each handler does\<close>

lemma syscall72_eq:
  "syscall72 v w =
     Inr (if v = 9 then install Syscall42 (emit (Wasm_call ''oh_no'') w)
          else hello (emit (Wasm_call ''oh_no'') w))"
  by (simp add: syscall72_def run_wasm72)

lemma syscall42_eq:
  "syscall42 v w =
     Inr (if v = 4 then install Syscall18 (emit (Wasm_call ''_oh_no'') w)
          else hello (emit (Wasm_call ''_oh_no'') w))"
  by (simp add: syscall42_def run_wasm42)

lemma syscall18_eq:
  "syscall18 v w =
     Inr (if v = 7 then install The_end (emit (Wasm_call ''oh_no'') w)
          else hello (emit (Wasm_call ''oh_no'') w))"
  by (simp add: syscall18_def run_wasm18)

lemma lol_branch_eq:
  "lol_branch w = emit (Caught RuntimeError) (emit (Wasm_call ''_stage_one'') (restore_log w))"
  by (simp add: lol_branch_def run_lol_wasm)

lemma the_end_eq:
  "the_end v w =
     Inr (if 1 <s time_NULL w - first_press w
          then (if v = 4 then install Syscall12 (emit (Wasm_call ''wetsand'') w)
                else lol_branch (emit (Wasm_call ''wetsand'') w))
          else lol_branch w)"
  by (simp add: the_end_def wetsand_eq)

lemma syscall12_eq:
  "syscall12 v w = Inr (if v = 8 then install Syscall188 w else hello w)"
  unfolding syscall12_def syscall12_test by simp

lemma time_after_probe: "time_NULL (debugger_stmt w) = time_NULL w + word_of_nat (pause w)"
  by (simp add: time_NULL_def debugger_stmt_def emit_def)

lemma debugger_stmt_frame:
  "first_press (debugger_stmt w) = first_press w"
  "g_func_ptr (debugger_stmt w) = g_func_ptr w"
  "log_stored (debugger_stmt w) = log_stored w"
  "console_log (debugger_stmt w) = console_log w"
  "console_assert (debugger_stmt w) = console_assert w"
  "asm_const0 (debugger_stmt w) = asm_const0 w"
  "trace (debugger_stmt w) = trace w @ [Debugger]"
  by (simp_all add: debugger_stmt_def emit_def)

lemma debugger_check_eq:
  "debugger_check w =
     (if (word_of_nat (pause w) :: i32) \<noteq> 0
      then (1, if log_stored w = 1 then restore_log (debugger_stmt w) else debugger_stmt w)
      else (0, debugger_stmt w))"
  by (simp add: debugger_check_def Let_def time_after_probe debugger_stmt_frame)

lemma debugger_stmt_clean: "pause w = 0 \<Longrightarrow> debugger_stmt w = emit Debugger w"
  by (simp add: debugger_stmt_def)

lemma debugger_check_clean: "pause w = 0 \<Longrightarrow> debugger_check w = (0, emit Debugger w)"
  by (simp add: debugger_check_eq debugger_stmt_clean)

lemma hello_clean:
  "clean w \<Longrightarrow>
   hello w = w\<lparr>log_stored := 1, console_assert := console_log w,
               console_log := Ccall Syscall80, trace := trace w @ [Debugger, Read_source]\<rparr>"
  by (simp add: hello_def debugger_check_clean clean_def emit_def install_def)

lemma syscall80_clean:
  "pause w = 0 \<Longrightarrow> g_func_ptr w = 1 \<Longrightarrow>
   syscall80 v w = Inr (call_me_indirectly v (emit Debugger w\<lparr>first_press := time_NULL w\<rparr>))"
  by (simp add: syscall80_def debugger_check_clean func_table_def emit_def time_NULL_def)

lemma elapsed:
  "1 < d \<Longrightarrow> d < 2 ^ 31 \<Longrightarrow> 1 <s (word_of_int (c + int d) - word_of_int c :: i32)"
proof -
  assume d: "1 < d" "d < 2 ^ 31"
  have "(word_of_int (c + int d) - word_of_int c :: i32) = word_of_nat d" by simp
  moreover have "sint (word_of_nat d :: i32) = int d"
    using d by (simp add: signed_of_nat signed_take_bit_int_eq_self)
  ultimately show ?thesis using d by (simp add: word_sless_alt)
qed

lemma full_run:
  assumes "console_log w = Ccall Syscall80" "g_func_ptr w = 1" "clean w" "1 < d" "d < 2 ^ 31"
  shows "run [Press 1, Press 9, Press 4, Press 7, Wait d, Press 4, Press 8, Press 2] w =
     Inr (w\<lparr>first_press := time_NULL w, log_stored := 1, console_assert := Ccall Syscall188,
             console_log := Ccall Syscall80, clock := clock w + int d,
             trace := trace w @ [Debugger, Wasm_call ''oh_no'', Wasm_call ''_oh_no'',
               Wasm_call ''oh_no'', Wasm_call ''wetsand'', Run_script final_script,
               Debugger, Read_source]\<rparr>)"
  using assms elapsed[of d "clock w"]
  by (simp add: press_def syscall80_clean clean_def call_me_indirectly_def install_def emit_def
      syscall72_eq syscall42_eq syscall18_eq the_end_eq syscall12_eq syscall188_def hello_clean
      time_NULL_def)

lemma hello_eq:
  "hello w =
     (if (word_of_nat (pause w) :: i32) \<noteq> 0
      then (if log_stored w = 1 then restore_log (debugger_stmt w) else debugger_stmt w)
      else if asm_const0 w = expected
      then install Syscall80
             ((emit Read_source (debugger_stmt w))\<lparr>log_stored := 1, console_assert := console_log w\<rparr>)
      else if log_stored w = 1 then restore_log (emit Read_source (debugger_stmt w))
      else emit Read_source (debugger_stmt w))"
  by (simp add: hello_def debugger_check_eq debugger_stmt_frame emit_def Let_def)

lemma syscall80_eq:
  "syscall80 v w =
     (if (word_of_nat (pause w) :: i32) \<noteq> 0
      then Inr (if log_stored w = 1 then restore_log (debugger_stmt w) else debugger_stmt w)
      else if g_func_ptr w = 1
      then Inr (call_me_indirectly v ((debugger_stmt w)\<lparr>first_press := time_NULL (debugger_stmt w)\<rparr>))
      else Inl NullFunctionCall)"
  by (simp add: syscall80_def debugger_check_eq debugger_stmt_frame func_table_def Let_def)

lemmas state_defs = install_def emit_def restore_log_def debugger_stmt_def time_NULL_def
  call_me_indirectly_def

lemmas handler_eqs = syscall80_eq syscall72_eq syscall42_eq syscall18_eq the_end_eq
  syscall12_eq syscall188_def hello_eq lol_branch_eq

section \<open>Sessions from a fresh page\<close>

lemmas session_eval = press_def handler_eqs state_defs word_sless_alt
  hook_after_def trace_after_def first_press_after_def after_def

lemma boot_eq:
  "boot = \<lparr>first_press = 0, g_func_ptr = 1, log_stored = 1,
      console_log = Ccall Syscall80, console_assert = Host_log,
      clock = 1000, pause = 0, asm_const0 = expected, lol_wasm_addr = 0,
      trace = [Debugger, Read_source]\<rparr>"
  by (simp add: boot_def startup_def main_def initial_def hello_eq state_defs)


lemma stage5_eq:
  "run [Press 1, Press 9, Press 4, Press 7] boot =
     Inr \<lparr>first_press = 1000, g_func_ptr = 1, log_stored = 1,
      console_log = Ccall The_end, console_assert = Host_log,
      clock = 1000, pause = 0, asm_const0 = expected, lol_wasm_addr = 0,
      trace = [Debugger, Read_source, Debugger, Wasm_call ''oh_no'', Wasm_call ''_oh_no'',
               Wasm_call ''oh_no'']\<rparr>"
  by (simp add: boot_eq press_def handler_eqs state_defs)

lemma run_append: "run (as @ bs) w = (case run as w of Inl e \<Rightarrow> Inl e | Inr w' \<Rightarrow> run bs w')"
  by (induction as arbitrary: w) (simp_all split: sum.splits)

lemma host_log_step:
  "console_log w = Host_log \<Longrightarrow>
   \<exists>w'. act a w = Inr w' \<and> console_log w' = Host_log \<and> trace w' = trace w
        \<and> first_press w' = first_press w"
  by (cases a) (simp_all add: press_def)

lemma host_log_terminal:
  "console_log w = Host_log \<Longrightarrow>
   \<exists>w'. run as w = Inr w' \<and> console_log w' = Host_log \<and> trace w' = trace w
        \<and> first_press w' = first_press w"
proof (induction as arbitrary: w)
  case Nil
  then show ?case by simp
next
  case (Cons a as)
  from host_log_step [OF Cons.prems, of a] obtain w1
    where 1: "act a w = Inr w1" "console_log w1 = Host_log" "trace w1 = trace w"
      "first_press w1 = first_press w"
    by blast
  from Cons.IH [OF 1(2)] 1 show ?case by simp
qed

section \<open>The claims\<close>

text \<open>
  C1. From a state whose hook is the stage-1 wrapper, with the launch check passed and the
  guard clean, the presses 1, 9, 4, 7, a wait of \<open>d\<close> seconds with \<open>1 < d\<close>, then 4, 8, 2
  run through all seven handlers: the trace grows by the probe of stage 1, the four
  validator calls, the final script (the success message) and the two guard events of
  the closing \<^const>\<open>hello\<close>; the message is shown exactly once.
\<close>

theorem full_sequence_succeeds:
  assumes "console_log w = Ccall Syscall80" "g_func_ptr w = 1" "clean w" "1 < d" "d < 2 ^ 31"
  shows "\<exists>w'. run [Press 1, Press 9, Press 4, Press 7, Wait d, Press 4, Press 8, Press 2] w = Inr w'
           \<and> trace w' = trace w @ [Debugger, Wasm_call ''oh_no'', Wasm_call ''_oh_no'',
                 Wasm_call ''oh_no'', Wasm_call ''wetsand'', Run_script final_script,
                 Debugger, Read_source]
           \<and> notify_count w' = notify_count w + 1"
  using full_run [OF assms] by (simp add: notify_count_def)

text \<open>C1, on the fresh page \<^const>\<open>boot\<close> with a wait of two seconds.\<close>

theorem full_sequence_succeeds_witness:
  "console_log boot = Ccall Syscall80 \<and> g_func_ptr boot = 1 \<and> clean boot
   \<and> (1 :: nat) < 2 \<and> (2 :: nat) < 2 ^ 31
   \<and> trace_after (run [Press 1, Press 9, Press 4, Press 7, Wait 2, Press 4, Press 8, Press 2] boot)
       = Some [Debugger, Read_source, Debugger, Wasm_call ''oh_no'', Wasm_call ''_oh_no'',
               Wasm_call ''oh_no'', Wasm_call ''wetsand'', Run_script final_script,
               Debugger, Read_source]"
proof -
  have h: "console_log boot = Ccall Syscall80" "g_func_ptr boot = 1" "clean boot"
    by (simp_all add: boot_eq clean_def)
  have d: "(1 :: nat) < 2" "(2 :: nat) < 2 ^ 31" by simp_all
  from full_sequence_succeeds [OF h d] obtain w'
    where "run [Press 1, Press 9, Press 4, Press 7, Wait 2, Press 4, Press 8, Press 2] boot = Inr w'"
      and "trace w' = trace boot @ [Debugger, Wasm_call ''oh_no'', Wasm_call ''_oh_no'',
                 Wasm_call ''oh_no'', Wasm_call ''wetsand'', Run_script final_script,
                 Debugger, Read_source]"
    by blast
  then show ?thesis using h by (simp add: trace_after_def boot_eq)
qed

text \<open>
  C2, as stated, fails. On a fresh page, 1, 9, 4, 7 and then the right digit 4 without
  any wait take the failure branch of \<^verbatim>\<open>the_end\<close>. The hook it leaves is not one that
  traps: it is the host's own \<^verbatim>\<open>console.log\<close>, and a further press neither throws nor
  adds an event. The one trap was run, and caught, inside \<^verbatim>\<open>the_end\<close> itself.
\<close>

theorem the_end_failure_is_terminal_counterexample:
  "hook_after (run [Press 1, Press 9, Press 4, Press 7, Press 4] boot) = Some Host_log
   \<and> run [Press 1, Press 9, Press 4, Press 7, Press 4, Press 4] boot
       = run [Press 1, Press 9, Press 4, Press 7, Press 4] boot"
  by (simp add: boot_eq session_eval)

text \<open>
  C2, amended. A failed check in \<^verbatim>\<open>the_end\<close> (at most one second since
  \<^const>\<open>first_press\<close>, even with the digit 4, or another digit) does not go through
  \<^const>\<open>hello\<close>: it sets console.log to what console.assert holds, runs the
  \<^verbatim>\<open>unreachable\<close> module once and drops its error, and shows no message. When
  console.assert holds the host's own console.log, no later action reaches a handler
  any more.
\<close>

theorem the_end_failure_restores_saved_log:
  assumes "\<not> 1 <s time_NULL w - first_press w \<or> v \<noteq> 4"
  shows "\<exists>w'. the_end v w = Inr w'
           \<and> console_log w' = console_assert w
           \<and> trace w' = trace w
                @ (if 1 <s time_NULL w - first_press w then [Wasm_call ''wetsand''] else [])
                @ [Wasm_call ''_stage_one'', Caught RuntimeError]
           \<and> notify_count w' = notify_count w
           \<and> (console_assert w = Host_log \<longrightarrow>
                (\<forall>as. \<exists>w''. run as w' = Inr w'' \<and> console_log w'' = Host_log
                              \<and> trace w'' = trace w'))"
proof -
  let ?w' = "lol_branch (if 1 <s time_NULL w - first_press w
                         then emit (Wasm_call ''wetsand'') w else w)"
  have e: "the_end v w = Inr ?w'" using assms by (auto simp: the_end_eq)
  have c: "console_log ?w' = console_assert w"
    by (simp add: lol_branch_eq state_defs)
  have t: "trace ?w' = trace w
                @ (if 1 <s time_NULL w - first_press w then [Wasm_call ''wetsand''] else [])
                @ [Wasm_call ''_stage_one'', Caught RuntimeError]"
    by (simp add: lol_branch_eq state_defs)
  have n: "notify_count ?w' = notify_count w"
    by (simp add: notify_count_def t)
  have "\<exists>w''. run as ?w' = Inr w'' \<and> console_log w'' = Host_log \<and> trace w'' = trace ?w'"
    if "console_assert w = Host_log" for as
    using host_log_terminal [of ?w' as] that c by auto
  with e c t n show ?thesis by blast
qed

text \<open>C2, amended, on the fresh page after 1, 9, 4, 7 and an immediate 4.\<close>

theorem the_end_failure_restores_saved_log_witness:
  "\<not> 1 <s time_NULL (after [Press 1, Press 9, Press 4, Press 7] boot)
            - first_press (after [Press 1, Press 9, Press 4, Press 7] boot)
   \<and> console_assert (after [Press 1, Press 9, Press 4, Press 7] boot) = Host_log
   \<and> hook_after (the_end 4 (after [Press 1, Press 9, Press 4, Press 7] boot)) = Some Host_log
   \<and> hook_after (run [Press 9, Wait 5, Press 1] (after [Press 1, Press 9, Press 4, Press 7, Press 4] boot))
       = Some Host_log"
proof -
  let ?w = "after [Press 1, Press 9, Press 4, Press 7] boot"
  have w: "?w = \<lparr>first_press = 1000, g_func_ptr = 1, log_stored = 1,
      console_log = Ccall The_end, console_assert = Host_log,
      clock = 1000, pause = 0, asm_const0 = expected, lol_wasm_addr = 0,
      trace = [Debugger, Read_source, Debugger, Wasm_call ''oh_no'', Wasm_call ''_oh_no'',
               Wasm_call ''oh_no'']\<rparr>"
    by (simp only: after_def stage5_eq sum.case)
  have h: "\<not> 1 <s time_NULL ?w - first_press ?w" by (simp add: w time_NULL_def word_sless_alt)
  have a: "console_assert ?w = Host_log" by (simp add: w)
  from h have "\<not> 1 <s time_NULL ?w - first_press ?w \<or> (4 :: i32) \<noteq> 4" by simp
  from the_end_failure_restores_saved_log [OF this] a obtain w'
    where e: "the_end 4 ?w = Inr w'" and c: "console_log w' = Host_log"
      and r: "\<forall>as. \<exists>w''. run as w' = Inr w'' \<and> console_log w'' = Host_log \<and> trace w'' = trace w'"
    by auto
  have "run [Press 1, Press 9, Press 4, Press 7, Press 4] boot = the_end 4 ?w"
    by (simp add: boot_eq session_eval)
  with e have "run [Press 1, Press 9, Press 4, Press 7, Press 4] boot = Inr w'"
    by simp
  then have "after [Press 1, Press 9, Press 4, Press 7, Press 4] boot = w'"
    by (simp add: after_def)
  moreover from r obtain w'' where "run [Press 9, Wait 5, Press 1] w' = Inr w''"
    "console_log w'' = Host_log" by blast
  ultimately show ?thesis using h a e c by (simp add: hook_after_def)
qed

text \<open>
  C3, as stated, fails at stage 5. On a fresh page, after 1, 9, 4, 7 and a wait of two
  seconds the hook is the wrapper of \<^verbatim>\<open>the_end\<close> and the guard is clean; the wrong digit
  5 leaves the host's own console.log as the hook, not the stage-1 wrapper.
\<close>

theorem wrong_digit_resets_counterexample:
  "hook_after (run [Press 1, Press 9, Press 4, Press 7, Wait 2] boot) = Some (Ccall The_end)
   \<and> clean (after [Press 1, Press 9, Press 4, Press 7, Wait 2] boot)
   \<and> (5 :: i32) \<noteq> expected_digit The_end
   \<and> hook_after (run [Press 1, Press 9, Press 4, Press 7, Wait 2, Press 5] boot) = Some Host_log"
  by (simp add: boot_eq session_eval clean_def)

text \<open>
  C3, amended. At stages 2, 3, 4, 6 and 7 (every stage from 2 on except stage 5), a digit
  other than the expected one, processed while the guard is clean, leaves the stage-1
  wrapper as the hook.
\<close>

theorem wrong_digit_resets:
  assumes "console_log w = Ccall h"
    and "h \<in> {Syscall72, Syscall42, Syscall18, Syscall12, Syscall188}"
    and "v \<noteq> expected_digit h"
    and "clean w"
  shows "\<exists>w'. press v w = Inr w' \<and> console_log w' = Ccall Syscall80"
proof -
  have c: "clean (emit e w)" for e using assms(4) by (simp add: clean_def emit_def)
  have "console_log (hello (emit e w)) = Ccall Syscall80" for e
    by (simp add: hello_clean [OF c])
  moreover have "console_log (hello w) = Ccall Syscall80"
    by (simp add: hello_clean [OF assms(4)])
  ultimately show ?thesis
    using assms(1,2,3)
    by (auto simp: press_def syscall72_eq syscall42_eq syscall18_eq syscall12_eq syscall188_def)
qed

text \<open>C3, amended, at stage 2 of a fresh page with the wrong digit 5.\<close>

theorem wrong_digit_resets_witness:
  "console_log (after [Press 1] boot) = Ccall Syscall72
   \<and> Syscall72 \<in> {Syscall72, Syscall42, Syscall18, Syscall12, Syscall188}
   \<and> (5 :: i32) \<noteq> expected_digit Syscall72
   \<and> clean (after [Press 1] boot)
   \<and> hook_after (press 5 (after [Press 1] boot)) = Some (Ccall Syscall80)"
proof -
  let ?w = "after [Press 1] boot"
  have h: "console_log ?w = Ccall Syscall72"
    "Syscall72 \<in> {Syscall72, Syscall42, Syscall18, Syscall12, Syscall188}"
    "(5 :: i32) \<noteq> expected_digit Syscall72" "clean ?w"
    by (simp_all add: boot_eq session_eval clean_def)
  from wrong_digit_resets [OF h] obtain w'
    where "press 5 ?w = Inr w'" "console_log w' = Ccall Syscall80" by blast
  with h show ?thesis by (simp add: hook_after_def)
qed

text \<open>
  C6, as stated, fails. On a fresh page, 1, 9, 4, 7, a wait of exactly one second and
  then 4: the validator \<^verbatim>\<open>wetsand\<close> is not called, but the hook afterwards is the host's
  own console.log, not the stage-1 wrapper, and \<^const>\<open>hello\<close> has not run (no guard event
  after the probe of stage 1).
\<close>

theorem too_fast_resets_counterexample:
  "hook_after (run [Press 1, Press 9, Press 4, Press 7, Wait 1] boot) = Some (Ccall The_end)
   \<and> hook_after (run [Press 1, Press 9, Press 4, Press 7, Wait 1, Press 4] boot) = Some Host_log
   \<and> trace_after (run [Press 1, Press 9, Press 4, Press 7, Wait 1, Press 4] boot)
       = Some [Debugger, Read_source, Debugger, Wasm_call ''oh_no'', Wasm_call ''_oh_no'',
               Wasm_call ''oh_no'', Wasm_call ''_stage_one'', Caught RuntimeError]"
  by (simp add: boot_eq session_eval)

text \<open>
  C6, amended. When the time since \<^const>\<open>first_press\<close> is not greater than one second,
  \<^verbatim>\<open>the_end\<close> never calls its validator and treats the stage as failed by taking its own
  failure branch: console.log is set to what console.assert holds and the \<^verbatim>\<open>unreachable\<close>
  module is run once, its error dropped. Nothing else changes: \<^const>\<open>hello\<close> is not
  called (no guard event, no wrapper installed by this path). When console.assert holds
  the host's own console.log, that function is the hook afterwards, not the stage-1
  wrapper.
\<close>

theorem too_fast_takes_failure_branch:
  assumes "\<not> 1 <s time_NULL w - first_press w"
  shows "the_end v w =
     Inr (w\<lparr>console_log := console_assert w,
            trace := trace w @ [Wasm_call ''_stage_one'', Caught RuntimeError]\<rparr>)
   \<and> (console_assert w = Host_log \<longrightarrow>
        hook_after (the_end v w) = Some Host_log
        \<and> hook_after (the_end v w) \<noteq> Some (Ccall Syscall80))"
  using assms
  by (simp add: the_end_eq lol_branch_eq emit_def restore_log_def hook_after_def)

text \<open>C6, amended, on the fresh page after 1, 9, 4, 7 and a wait of one second.\<close>

theorem too_fast_takes_failure_branch_witness:
  "\<not> 1 <s time_NULL (after [Press 1, Press 9, Press 4, Press 7, Wait 1] boot)
            - first_press (after [Press 1, Press 9, Press 4, Press 7, Wait 1] boot)
   \<and> console_assert (after [Press 1, Press 9, Press 4, Press 7, Wait 1] boot) = Host_log
   \<and> hook_after (the_end 4 (after [Press 1, Press 9, Press 4, Press 7, Wait 1] boot)) = Some Host_log
   \<and> trace_after (the_end 4 (after [Press 1, Press 9, Press 4, Press 7, Wait 1] boot))
       = Some [Debugger, Read_source, Debugger, Wasm_call ''oh_no'', Wasm_call ''_oh_no'',
               Wasm_call ''oh_no'', Wasm_call ''_stage_one'', Caught RuntimeError]"
proof -
  let ?w = "after [Press 1, Press 9, Press 4, Press 7, Wait 1] boot"
  have h: "\<not> 1 <s time_NULL ?w - first_press ?w"
    by (simp add: boot_eq session_eval)
  have a: "console_assert ?w = Host_log"
    by (simp add: boot_eq session_eval)
  have t: "trace ?w = [Debugger, Read_source, Debugger, Wasm_call ''oh_no'', Wasm_call ''_oh_no'',
               Wasm_call ''oh_no'']"
    by (simp add: boot_eq session_eval)
  from too_fast_takes_failure_branch [OF h, of 4] a
  have e: "the_end 4 ?w =
     Inr (?w\<lparr>console_log := console_assert ?w,
            trace := trace ?w @ [Wasm_call ''_stage_one'', Caught RuntimeError]\<rparr>)"
    and k: "hook_after (the_end 4 ?w) = Some Host_log"
    by blast+
  have "trace_after (the_end 4 ?w) = Some (trace ?w @ [Wasm_call ''_stage_one'', Caught RuntimeError])"
    by (simp only: e trace_after_def sum.case) simp
  with h a k t show ?thesis by simp
qed

text \<open>
  C7, as stated, fails. After the full sequence on a fresh page a hook is installed, the
  stage-1 wrapper, and the next press is processed: a 1 moves on to stage 2.
\<close>

theorem success_ends_chain_counterexample:
  "hook_after (run [Press 1, Press 9, Press 4, Press 7, Wait 2, Press 4, Press 8, Press 2] boot)
     = Some (Ccall Syscall80)
   \<and> hook_after (run [Press 1, Press 9, Press 4, Press 7, Wait 2, Press 4, Press 8, Press 2, Press 1] boot)
     = Some (Ccall Syscall72)"
  by (simp add: boot_eq session_eval)

text \<open>
  C7, amended. After a success at stage 7 the success message is shown and then
  \<^const>\<open>hello\<close> runs: with the guard clean the stage-1 wrapper is installed as the hook
  again, and the next input is processed by the stage-1 handler.
\<close>

theorem success_rearms_stage1:
  assumes "clean w"
  shows "\<exists>w'. syscall188 2 w = Inr w'
           \<and> trace w' = trace w @ [Run_script final_script, Debugger, Read_source]
           \<and> console_log w' = Ccall Syscall80
           \<and> press v w' = syscall80 v w'"
proof -
  have "clean (emit (Run_script final_script) w)"
    using assms by (simp add: clean_def emit_def)
  from hello_clean [OF this] show ?thesis
    by (simp add: syscall188_def press_def emit_def)
qed

text \<open>C7, amended, at stage 7 of a fresh page.\<close>

theorem success_rearms_stage1_witness:
  "clean (after [Press 1, Press 9, Press 4, Press 7, Wait 2, Press 4, Press 8] boot)
   \<and> hook_after (syscall188 2 (after [Press 1, Press 9, Press 4, Press 7, Wait 2, Press 4, Press 8] boot))
       = Some (Ccall Syscall80)"
proof -
  let ?w = "after [Press 1, Press 9, Press 4, Press 7, Wait 2, Press 4, Press 8] boot"
  have h: "clean ?w" by (simp add: boot_eq session_eval clean_def)
  from success_rearms_stage1 [OF h] obtain w'
    where "syscall188 2 ?w = Inr w'" "console_log w' = Ccall Syscall80" by blast
  with h show ?thesis by (simp add: hook_after_def)
qed

text \<open>
  C4, as stated, fails. At stage 2 of a fresh page, with the developer console open
  (the \<^verbatim>\<open>debugger\<close> statement would stop for three seconds) and the text of
  \<^verbatim>\<open>ASM_CONSTS[0]\<close> changed, the digit 9 is validated and the chain moves to stage 3; the
  only new event is the validator call. The guard has not been invoked.
\<close>

theorem guard_before_every_validator_counterexample:
  "hook_after (run [Press 1, Inspector 3, Edit_source ''function(){}''] boot) = Some (Ccall Syscall72)
   \<and> \<not> clean (after [Press 1, Inspector 3, Edit_source ''function(){}''] boot)
   \<and> hook_after (run [Press 1, Inspector 3, Edit_source ''function(){}'', Press 9] boot)
       = Some (Ccall Syscall42)
   \<and> trace_after (run [Press 1, Inspector 3, Edit_source ''function(){}'', Press 9] boot)
       = Some [Debugger, Read_source, Debugger, Wasm_call ''oh_no'']"
  by (simp add: boot_eq session_eval clean_def expected_def)

text \<open>
  C4, amended. Only the stage-1 handler invokes the guard before its validator, and what
  it invokes is the debugger probe alone; the comparison of the source text is made
  only inside \<^const>\<open>hello\<close>, so a right first digit passes without it. The handlers of
  stages 2 to 6 call their validator first, and on the right digit they advance without
  any guard event, whatever the inspector and the source text are. The stage-7 handler
  decides first and calls \<^const>\<open>hello\<close>, hence the guard, afterwards.
\<close>

theorem guard_first_only_at_stage1:
  "(g_func_ptr w = 1 \<longrightarrow> (\<exists>es. trace_after (syscall80 v w) = Some (trace w @ Debugger # es)))
   \<and> (g_func_ptr w = 1 \<and> pause w = 0 \<longrightarrow>
        syscall80 1 w = Inr (w\<lparr>first_press := time_NULL w, console_log := Ccall Syscall72,
                               trace := trace w @ [Debugger]\<rparr>))
   \<and> syscall72 9 w = Inr (w\<lparr>console_log := Ccall Syscall42, trace := trace w @ [Wasm_call ''oh_no'']\<rparr>)
   \<and> syscall42 4 w = Inr (w\<lparr>console_log := Ccall Syscall18, trace := trace w @ [Wasm_call ''_oh_no'']\<rparr>)
   \<and> syscall18 7 w = Inr (w\<lparr>console_log := Ccall The_end, trace := trace w @ [Wasm_call ''oh_no'']\<rparr>)
   \<and> (1 <s time_NULL w - first_press w \<longrightarrow>
        the_end 4 w = Inr (w\<lparr>console_log := Ccall Syscall12, trace := trace w @ [Wasm_call ''wetsand'']\<rparr>))
   \<and> syscall12 8 w = Inr (w\<lparr>console_log := Ccall Syscall188\<rparr>)
   \<and> (\<exists>es. trace_after (syscall188 2 w) = Some (trace w @ Run_script final_script # Debugger # es))"
proof -
  have 1: "\<exists>es. trace_after (syscall80 v w) = Some (trace w @ Debugger # es)" if "g_func_ptr w = 1"
    using that by (simp add: session_eval)
  have 2: "syscall80 1 w = Inr (w\<lparr>first_press := time_NULL w, console_log := Ccall Syscall72,
                               trace := trace w @ [Debugger]\<rparr>)"
    if "g_func_ptr w = 1 \<and> pause w = 0"
    using that by (simp add: syscall80_clean state_defs)
  have 3: "syscall72 9 w = Inr (w\<lparr>console_log := Ccall Syscall42, trace := trace w @ [Wasm_call ''oh_no'']\<rparr>)"
    by (simp add: syscall72_eq state_defs)
  have 4: "syscall42 4 w = Inr (w\<lparr>console_log := Ccall Syscall18, trace := trace w @ [Wasm_call ''_oh_no'']\<rparr>)"
    by (simp add: syscall42_eq state_defs)
  have 5: "syscall18 7 w = Inr (w\<lparr>console_log := Ccall The_end, trace := trace w @ [Wasm_call ''oh_no'']\<rparr>)"
    by (simp add: syscall18_eq state_defs)
  have 6: "the_end 4 w = Inr (w\<lparr>console_log := Ccall Syscall12, trace := trace w @ [Wasm_call ''wetsand'']\<rparr>)"
    if "1 <s time_NULL w - first_press w"
    using that by (simp add: the_end_eq install_def emit_def)
  have 7: "syscall12 8 w = Inr (w\<lparr>console_log := Ccall Syscall188\<rparr>)"
    by (simp add: syscall12_eq state_defs)
  have 8: "\<exists>es. trace_after (syscall188 2 w) = Some (trace w @ Run_script final_script # Debugger # es)"
    by (simp add: syscall188_def hello_eq state_defs trace_after_def)
  from 1 2 3 4 5 6 7 8 show ?thesis by blast
qed

text \<open>
  C4, amended, on the fresh page (stage 1), and at stage 5 reached with a wait of two
  seconds and the developer console then opened.
\<close>

theorem guard_first_only_at_stage1_witness:
  "g_func_ptr boot = 1 \<and> pause boot = 0
   \<and> trace_after (syscall80 1 boot) = Some [Debugger, Read_source, Debugger]
   \<and> 1 <s time_NULL (after [Press 1, Press 9, Press 4, Press 7, Wait 2, Inspector 3] boot)
            - first_press (after [Press 1, Press 9, Press 4, Press 7, Wait 2, Inspector 3] boot)
   \<and> hook_after (the_end 4 (after [Press 1, Press 9, Press 4, Press 7, Wait 2, Inspector 3] boot))
       = Some (Ccall Syscall12)
   \<and> trace_after (the_end 4 (after [Press 1, Press 9, Press 4, Press 7, Wait 2, Inspector 3] boot))
       = Some [Debugger, Read_source, Debugger, Wasm_call ''oh_no'', Wasm_call ''_oh_no'',
               Wasm_call ''oh_no'', Wasm_call ''wetsand'']"
proof -
  let ?w = "after [Press 1, Press 9, Press 4, Press 7, Wait 2, Inspector 3] boot"
  have h: "g_func_ptr boot = 1 \<and> pause boot = 0" by (simp add: boot_eq)
  have t: "1 <s time_NULL ?w - first_press ?w" by (simp add: boot_eq session_eval)
  have b: "trace boot = [Debugger, Read_source]"
    "trace ?w = [Debugger, Read_source, Debugger, Wasm_call ''oh_no'', Wasm_call ''_oh_no'',
               Wasm_call ''oh_no'']"
    by (simp_all add: boot_eq session_eval)
  from guard_first_only_at_stage1 [of boot 1] h
  have 1: "syscall80 1 boot = Inr (boot\<lparr>first_press := time_NULL boot, console_log := Ccall Syscall72,
                               trace := trace boot @ [Debugger]\<rparr>)"
    by blast
  from guard_first_only_at_stage1 [of ?w 1] t
  have 2: "the_end 4 ?w = Inr (?w\<lparr>console_log := Ccall Syscall12, trace := trace ?w @ [Wasm_call ''wetsand'']\<rparr>)"
    by blast
  show ?thesis
    using h t by (simp add: 1 2 trace_after_def hook_after_def b)
qed

text \<open>
  C5, as stated, fails. On a fresh page with the developer console open, the probe of
  the stage-1 handler reports the inspector, and the hook afterwards is the host's own
  console.log, not the stage-1 wrapper.
\<close>

theorem guard_failure_resets_counterexample:
  "hook_after (run [Inspector 2] boot) = Some (Ccall Syscall80)
   \<and> fst (debugger_check (after [Inspector 2] boot)) = 1
   \<and> hook_after (run [Inspector 2, Press 1] boot) = Some Host_log"
  by (simp add: boot_eq session_eval debugger_check_eq)

text \<open>
  C5, amended. Once \<^const>\<open>hello\<close> has stored console.log (\<^const>\<open>log_stored\<close> is 1): when
  the probe of the stage-1 handler reports an inspector, the input is discarded (the
  result does not depend on it, no validator runs, \<^const>\<open>first_press\<close> is not written)
  and console.log is set to what console.assert holds; this path installs no wrapper of
  its own. \<^const>\<open>hello\<close> does the same when its probe reports an inspector or, after a
  clean probe, when the source text differs from the expected one. When console.assert
  holds the host's own console.log, that function is the hook afterwards, not the
  stage-1 wrapper.
\<close>

theorem guard_failure_restores_saved_log:
  assumes "log_stored w = 1"
  shows "(fst (debugger_check w) = 1 \<longrightarrow>
            syscall80 v w = Inr (w\<lparr>console_log := console_assert w,
                                   clock := clock w + int (pause w),
                                   trace := trace w @ [Debugger]\<rparr>)
          \<and> hello w = w\<lparr>console_log := console_assert w,
                         clock := clock w + int (pause w),
                         trace := trace w @ [Debugger]\<rparr>)
       \<and> (fst (debugger_check w) = 0 \<and> asm_const0 w \<noteq> expected \<longrightarrow>
            hello w = w\<lparr>console_log := console_assert w,
                         clock := clock w + int (pause w),
                         trace := trace w @ [Debugger, Read_source]\<rparr>)
       \<and> (fst (debugger_check w) = 1 \<and> console_assert w = Host_log \<longrightarrow>
            hook_after (syscall80 v w) = Some Host_log
            \<and> hook_after (syscall80 v w) \<noteq> Some (Ccall Syscall80)
            \<and> console_log (hello w) = Host_log)
       \<and> (fst (debugger_check w) = 0 \<and> asm_const0 w \<noteq> expected \<and> console_assert w = Host_log \<longrightarrow>
            console_log (hello w) = Host_log)"
  using assms
  by (auto simp: syscall80_eq hello_eq debugger_check_eq state_defs hook_after_def
      split: if_splits)

text \<open>
  C5, amended, on the fresh page with the developer console open, and with the source
  text changed.
\<close>

theorem guard_failure_restores_saved_log_witness:
  "log_stored (after [Inspector 2] boot) = 1
   \<and> fst (debugger_check (after [Inspector 2] boot)) = 1
   \<and> console_assert (after [Inspector 2] boot) = Host_log
   \<and> hook_after (syscall80 1 (after [Inspector 2] boot)) = Some Host_log
   \<and> first_press_after (syscall80 1 (after [Inspector 2] boot)) = Some 0
   \<and> log_stored (after [Edit_source ''function(){}''] boot) = 1
   \<and> fst (debugger_check (after [Edit_source ''function(){}''] boot)) = 0
   \<and> asm_const0 (after [Edit_source ''function(){}''] boot) \<noteq> expected
   \<and> console_assert (after [Edit_source ''function(){}''] boot) = Host_log
   \<and> console_log (hello (after [Edit_source ''function(){}''] boot)) = Host_log"
proof -
  let ?w = "after [Inspector 2] boot"
  let ?u = "after [Edit_source ''function(){}''] boot"
  have w: "log_stored ?w = 1" "fst (debugger_check ?w) = 1" "console_assert ?w = Host_log"
    "first_press ?w = 0"
    by (simp_all add: boot_eq session_eval debugger_check_eq)
  have u: "log_stored ?u = 1" "fst (debugger_check ?u) = 0 \<and> asm_const0 ?u \<noteq> expected"
    "console_assert ?u = Host_log"
    by (simp_all add: boot_eq session_eval debugger_check_eq expected_def)
  from guard_failure_restores_saved_log [OF w(1), of 1] w(2)
  have 1: "syscall80 1 ?w = Inr (?w\<lparr>console_log := console_assert ?w,
                                   clock := clock ?w + int (pause ?w),
                                   trace := trace ?w @ [Debugger]\<rparr>)"
    by blast
  from guard_failure_restores_saved_log [OF u(1)] u(2)
  have 2: "hello ?u = ?u\<lparr>console_log := console_assert ?u,
                         clock := clock ?u + int (pause ?u),
                         trace := trace ?u @ [Debugger, Read_source]\<rparr>"
    by blast
  show ?thesis
    using w u by (simp add: 1 2 hook_after_def first_press_after_def)
qed

text \<open>
  C8, as stated, fails. On a fresh page \<^const>\<open>first_press\<close> is 0; a wrong first digit
  100 seconds later leaves the hook at stage 1 and \<^const>\<open>first_press\<close> at the time of
  that press.
\<close>

theorem first_press_only_on_success_counterexample:
  "first_press boot = 0
   \<and> hook_after (run [Wait 100] boot) = Some (Ccall Syscall80)
   \<and> (5 :: i32) \<noteq> expected_digit Syscall80
   \<and> first_press_after (run [Wait 100, Press 5] boot) = Some 1100
   \<and> hook_after (run [Wait 100, Press 5] boot) = Some (Ccall Syscall80)"
  by (simp add: boot_eq session_eval)

lemma hello_first_press: "first_press (hello w) = first_press w"
  by (simp add: hello_eq state_defs)

text \<open>
  C8, amended. \<^const>\<open>first_press\<close> is written with the current time on every stage-1
  input whose debugger probe is clean, whether the digit is right or wrong. It is left
  as it is when the probe reports an inspector, and neither another handler nor
  \<^const>\<open>hello\<close> writes or clears it.
\<close>

theorem first_press_written_on_every_clean_visit:
  "(g_func_ptr w = 1 \<and> pause w = 0 \<longrightarrow> first_press_after (syscall80 v w) = Some (time_NULL w))
   \<and> (fst (debugger_check w) = 1 \<longrightarrow> first_press_after (syscall80 v w) = Some (first_press w))
   \<and> (h \<noteq> Syscall80 \<longrightarrow> first_press_after (ccall h v w) = Some (first_press w))
   \<and> first_press (hello w) = first_press w"
proof -
  have 1: "first_press_after (syscall80 v w) = Some (time_NULL w)"
    if "g_func_ptr w = 1 \<and> pause w = 0"
    using that
    by (simp add: syscall80_clean first_press_after_def call_me_indirectly_def
        hello_first_press install_def emit_def)
  have 2: "first_press_after (syscall80 v w) = Some (first_press w)"
    if "fst (debugger_check w) = 1"
    using that
    by (auto simp: syscall80_eq debugger_check_eq first_press_after_def state_defs split: if_splits)
  have 3: "first_press_after (ccall h v w) = Some (first_press w)" if "h \<noteq> Syscall80"
    using that
    by (cases h)
       (simp_all add: first_press_after_def syscall72_eq syscall42_eq syscall18_eq the_end_eq
          syscall12_eq syscall188_def hello_first_press lol_branch_eq install_def emit_def
          restore_log_def)
  from 1 2 3 hello_first_press show ?thesis by blast
qed

text \<open>
  C8, amended: a wrong first digit, a stage-1 input with the developer console open, and
  a wrong second digit.
\<close>

theorem first_press_written_on_every_clean_visit_witness:
  "g_func_ptr (after [Wait 100] boot) = 1 \<and> pause (after [Wait 100] boot) = 0
   \<and> first_press_after (syscall80 5 (after [Wait 100] boot)) = Some 1100
   \<and> fst (debugger_check (after [Press 1, Wait 7, Inspector 2] boot)) = 1
   \<and> first_press_after (syscall80 1 (after [Press 1, Wait 7, Inspector 2] boot)) = Some 1000
   \<and> Syscall72 \<noteq> Syscall80
   \<and> first_press_after (ccall Syscall72 5 (after [Press 1, Wait 7] boot)) = Some 1000"
proof -
  let ?a = "after [Wait 100] boot"
  let ?b = "after [Press 1, Wait 7, Inspector 2] boot"
  let ?c = "after [Press 1, Wait 7] boot"
  have a: "g_func_ptr ?a = 1 \<and> pause ?a = 0" "time_NULL ?a = 1100"
    by (simp_all add: boot_eq session_eval)
  have b: "fst (debugger_check ?b) = 1" "first_press ?b = 1000"
    by (simp_all add: boot_eq session_eval debugger_check_eq)
  have c: "Syscall72 \<noteq> Syscall80" "first_press ?c = 1000"
    by (simp_all add: boot_eq session_eval)
  from first_press_written_on_every_clean_visit [of ?a 5] a(1)
  have 1: "first_press_after (syscall80 5 ?a) = Some (time_NULL ?a)" by blast
  from first_press_written_on_every_clean_visit [of ?b 1] b(1)
  have 2: "first_press_after (syscall80 1 ?b) = Some (first_press ?b)" by blast
  from first_press_written_on_every_clean_visit [of ?c 5 Syscall72] c(1)
  have 3: "first_press_after (syscall72 5 ?c) = Some (first_press ?c)" by simp
  show ?thesis
    using a b c by (simp add: 1 2 3)
qed

lemma hello_g_func_ptr: "g_func_ptr (hello w) = g_func_ptr w"
  by (simp add: hello_eq state_defs)

text \<open>
  C10. \<^const>\<open>g_func_ptr\<close> starts as the null pointer; \<^const>\<open>hello\<close> and the handlers leave
  it as it is; \<^const>\<open>main\<close> leaves it as it is when the launch check fails and stores
  index 1 when the check passes. While it is null, a stage-1 input with a clean probe
  ends in the call through the null pointer, which is an exception and not a stage
  transition.
\<close>

theorem null_pointer_call_traps:
  "g_func_ptr (initial t) = 0
   \<and> g_func_ptr (hello w) = g_func_ptr w
   \<and> (p_argv \<noteq> [''./this.program''] \<longrightarrow> g_func_ptr (main p_argv w) = g_func_ptr w)
   \<and> g_func_ptr (main [''./this.program''] w) = 1
   \<and> (case ccall h v w of Inl e \<Rightarrow> True | Inr w' \<Rightarrow> g_func_ptr w' = g_func_ptr w)
   \<and> (g_func_ptr w = 0 \<and> fst (debugger_check w) = 0 \<longrightarrow> syscall80 v w = Inl NullFunctionCall)"
proof -
  have 1: "g_func_ptr (initial t) = 0" by (simp add: initial_def)
  have 3: "g_func_ptr (main p_argv w) = g_func_ptr w" if "p_argv \<noteq> [''./this.program'']"
    using that by (simp add: main_def emit_def restore_log_def split: list.splits)
  have 4: "g_func_ptr (main [''./this.program''] w) = 1" by (simp add: main_def)
  have 5: "case ccall h v w of Inl e \<Rightarrow> True | Inr w' \<Rightarrow> g_func_ptr w' = g_func_ptr w"
    by (cases h)
       (auto simp: syscall80_eq syscall72_eq syscall42_eq syscall18_eq the_end_eq
          syscall12_eq syscall188_def hello_g_func_ptr lol_branch_eq state_defs
          split: if_splits)
  have 6: "syscall80 v w = Inl NullFunctionCall" if "g_func_ptr w = 0 \<and> fst (debugger_check w) = 0"
    using that by (auto simp: syscall80_eq debugger_check_eq split: if_splits)
  from 1 hello_g_func_ptr 3 4 5 6 show ?thesis by blast
qed

text \<open>
  C10, after a failed launch check and, before \<^const>\<open>main\<close> has run, right after the
  first \<^const>\<open>hello\<close>.
\<close>

theorem null_pointer_call_traps_witness:
  "[''index.html''] \<noteq> [''./this.program'']
   \<and> g_func_ptr (startup [''index.html''] 1000) = 0
   \<and> fst (debugger_check (startup [''index.html''] 1000)) = 0
   \<and> syscall80 1 (startup [''index.html''] 1000) = Inl NullFunctionCall
   \<and> g_func_ptr (hello (initial 1000)) = 0
   \<and> fst (debugger_check (hello (initial 1000))) = 0
   \<and> press 1 (hello (initial 1000)) = Inl NullFunctionCall"
proof -
  let ?w = "startup [''index.html''] 1000"
  let ?u = "hello (initial 1000)"
  have n: "[''index.html''] \<noteq> [''./this.program'']" by simp
  have i: "g_func_ptr (initial 1000) = 0"
    using null_pointer_call_traps [of 1000] by blast
  have u: "g_func_ptr ?u = 0"
    using null_pointer_call_traps [of 1000 "initial 1000"] i by simp
  have w: "g_func_ptr ?w = 0"
    using null_pointer_call_traps [of 1000 ?u "[''index.html'']"] n u
    by (simp add: startup_def)
  have d: "fst (debugger_check ?w) = 0" "fst (debugger_check ?u) = 0"
    "console_log ?u = Ccall Syscall80"
    by (simp_all add: startup_def main_def initial_def hello_eq debugger_check_eq state_defs)
  from null_pointer_call_traps [of 1000 ?w _ _ 1] w d(1)
  have 1: "syscall80 1 ?w = Inl NullFunctionCall" by blast
  from null_pointer_call_traps [of 1000 ?u _ _ 1] u d(2)
  have 2: "syscall80 1 ?u = Inl NullFunctionCall" by blast
  show ?thesis using n w u d 1 2 by (simp add: press_def)
qed

section \<open>A remark on console.assert\<close>

text \<open>
  \<^const>\<open>hello\<close> stores the current console.log in console.assert every time it succeeds,
  not only the first time. After a wrong first digit what is stored is the stage-1
  wrapper, and the failure branch of \<^verbatim>\<open>the_end\<close> then puts that wrapper back.
\<close>

lemma saved_log_after_a_reset:
  "console_assert (after [Press 5] boot) = Ccall Syscall80
   \<and> hook_after (run [Press 5, Press 1, Press 9, Press 4, Press 7, Press 4] boot)
       = Some (Ccall Syscall80)"
  by (simp add: boot_eq session_eval)


text \<open>
  The same holds for the probe: after a wrong first digit, a stage-1 press with the
  developer console open, or a too fast fifth digit, puts the stage-1 wrapper back.
\<close>

lemma saved_log_after_a_reset_probe:
  "hook_after (run [Press 5, Inspector 2, Press 1] boot) = Some (Ccall Syscall80)
   \<and> hook_after (run [Press 5, Press 1, Press 9, Press 4, Press 7, Wait 1, Press 4] boot)
       = Some (Ccall Syscall80)"
  by (simp add: boot_eq session_eval)

end
